theory Spec2Isabelle
  imports Main
begin

section \<open>Python values used by \<open>backend/utils.py\<close>\<close>

text \<open>
  A Python \<open>str\<close> is a sequence of Unicode code points, so it is modelled as a list of
  natural numbers, one per code point. \<open>str\<close> turns an ASCII literal of the source into
  that representation.
\<close>

type_synonym pystr = "nat list"

definition str :: "string \<Rightarrow> pystr" where
  "str s = map of_char s"

text \<open>
  \<open>str.isspace\<close> on one code point: the characters CPython treats as whitespace
  (tab to carriage return, the four separators U+001C to U+001F, space, U+0085, U+00A0,
  U+1680, U+2000 to U+200A, U+2028, U+2029, U+202F, U+205F and U+3000).
\<close>

definition isspace :: "nat \<Rightarrow> bool" where
  "isspace c \<longleftrightarrow>
     (9 \<le> c \<and> c \<le> 13) \<or> (28 \<le> c \<and> c \<le> 32) \<or> c = 133 \<or> c = 160 \<or> c = 5760 \<or>
     (8192 \<le> c \<and> c \<le> 8202) \<or> c = 8232 \<or> c = 8233 \<or> c = 8239 \<or> c = 8287 \<or> c = 12288"

text \<open>\<open>s.strip()\<close> with no argument: whitespace is dropped at both ends.\<close>

definition strip :: "pystr \<Rightarrow> pystr" where
  "strip s = rev (dropWhile isspace (rev (dropWhile isspace s)))"

text \<open>A message is a \<open>Dict[str, str]\<close>; a conversation is a list of them.\<close>

type_synonym message = "pystr \<rightharpoonup> pystr"

text \<open>
  The exceptions the function can leave with. \<open>KeyError\<close> carries the missing key.
  \<open>CompletionFailure\<close> carries whatever \<open>litellm.completion\<close> raised (an exception
  of the provider, named by its class): the source has no \<open>try\<close>, so that exception
  reaches the caller as it is. The constructor records where an exception was raised.
  That is bookkeeping of this model: the source defines no exception class of its own
  and wraps nothing, so the Python exception that reaches the caller carries no such
  mark. \<open>TypeError\<close> stands for an argument that is not a list of dicts at all, which
  the annotation \<open>List[Dict[str, str]]\<close> excludes; only the store model below can meet
  it.
\<close>

datatype provider_exception = ProviderException pystr

datatype error =
    KeyError pystr
  | IndexError
  | AttributeError
  | TypeError
  | CompletionFailure provider_exception


text \<open>
  The result of \<open>litellm.completion\<close>, as far as the source reads it:
  \<open>completion["choices"][0]["message"]["content"]\<close>. Each key may be missing
  (\<open>None\<close> of the option type), the list of choices may be empty, and the content may be
  Python's \<open>None\<close> instead of a string.
\<close>

datatype py_value = PyNone | PyStr pystr

record completion_message =
  content :: "py_value option"

record choice =
  message :: "completion_message option"

record completion =
  choices :: "choice list option"

text \<open>
  The completion capability is outside the repository. It is a parameter: a function of
  the keyword arguments \<open>model\<close> and \<open>messages\<close> that either raises (\<open>Inl\<close>) or returns a
  completion.
\<close>

type_synonym request = "pystr \<times> message list"

type_synonym capability = "pystr \<Rightarrow> message list \<Rightarrow> provider_exception + completion"

section \<open>Module constants\<close>

definition SYSTEM_PROMPT :: pystr where
  "SYSTEM_PROMPT = str (
     ''As an expert chef who creates easy-to-use recipes for busy families'' @
     ''you combine culinary expertise with a deep understanding of family needs,'' @
     ''creativity, attention to detail, and excellent communication skills.'' @
     ''You can take complex cooking techniques and simplify them into clear,'' @
     ''step-by-step instructions that are easy to follow.'' @
     ''Recipes should be clear, concise, and easy to understand, with minimal jargon'' @
     ''and technical cooking terms. They might also provide helpful tips, variations,'' @
     ''or substitutions for common ingredients.'' @
     ''Always provide ingredient lists with precise measurements using standard units.'' @
     ''Many families have specific dietary requirements, such as vegetarian, gluten-free, '' @
     ''or dairy-free. As an expert chef you are aware of these limitations and'' @
     ''create recipes that accommodate various dietary needs.'' @
     ''Present only one recipe at a time. If the user doesn't specify what ingredients '' @
     ''they have available, assume only basic ingredients are available.'' @
     ''Be descriptive in the steps of the recipe, so it is easy to follow.'' @
     ''Have variety in your recipes, don't just recommend the same thing over and over.'' @
     ''You are to create recipes that use a maximum of 5 ingredients and'' @
     ''take 30 minutes or less to prepare.'' @
     ''Structure all your recipe responses clearly using Markdown for formatting.'' @
     ''Begin every recipe response with the recipe name as a Level 2 Heading (e.g., ## Amazing Blueberry Muffins).'' @
     ''Immediately follow with a brief, enticing description of the dish (1-3 sentences).'' @
     ''Next, include a section titled ### Ingredients. List all ingredients using a Markdown unordered list (bullet points).'' @
     ''Following ingredients, include a section titled ### Instructions. Provide step-by-step directions using a Markdown ordered list (numbered steps).'' @
     ''Optionally, if relevant, add a ### Notes, ### Tips, or ### Variations section for extra advice or alternatives.'')"

text \<open>
  Importing the module runs its top-level statements in order. The imports come first:
  \<open>os\<close>, \<open>typing\<close>, \<open>litellm\<close> and \<open>dotenv\<close>. Which modules can be imported depends on
  the installation, a parameter here; an import that fails raises
  \<open>ModuleNotFoundError\<close> and ends the initialisation. What \<open>litellm\<close> and \<open>dotenv\<close> do
  inside while they are imported is outside the repository and not modelled.
\<close>

datatype startup_error = ModuleNotFoundError pystr | UnicodeDecodeError

fun import_modules :: "(pystr \<Rightarrow> bool) \<Rightarrow> pystr list \<Rightarrow> startup_error option" where
  "import_modules installed [] = None"
| "import_modules installed (name # names) =
     (if installed name then import_modules installed names
      else Some (ModuleNotFoundError name))"

text \<open>
  \<open>load_dotenv(override=False)\<close>. There may be no \<open>.env\<close> file, which is not an error
  and leaves the environment as it is. A file that is not valid UTF-8 makes the call
  raise \<open>UnicodeDecodeError\<close>. Otherwise the file's variables are added to the
  environment, and a variable the environment already has keeps its value.
\<close>

type_synonym environ = "pystr \<rightharpoonup> pystr"

datatype dotenv_file = NoFile | Undecodable | Variables environ

definition load_dotenv :: "dotenv_file \<Rightarrow> environ \<Rightarrow> startup_error + environ" where
  "load_dotenv dotenv env =
     (case dotenv of
        NoFile \<Rightarrow> Inr env
      | Undecodable \<Rightarrow> Inl UnicodeDecodeError
      | Variables vars \<Rightarrow> Inr (vars ++ env))"

text \<open>\<open>os.environ.get("MODEL_NAME", "gpt-4o-mini")\<close>.\<close>

definition MODEL_NAME :: "environ \<Rightarrow> pystr" where
  "MODEL_NAME env =
     (case env (str ''MODEL_NAME'') of None \<Rightarrow> str ''gpt-4o-mini'' | Some v \<Rightarrow> v)"

text \<open>
  The top-level statements, in the source's order: the imports, \<open>load_dotenv\<close>, the
  literal \<open>SYSTEM_PROMPT\<close>, then \<open>MODEL_NAME\<close>. The result is what the import of the
  module raised, or the value the constant \<open>MODEL_NAME\<close> got, paired with the requests
  sent to the completion capability by these statements. None of them calls
  \<open>litellm.completion\<close>, and the only variable read from the environment is
  \<open>MODEL_NAME\<close>.
\<close>

definition module_init ::
    "(pystr \<Rightarrow> bool) \<Rightarrow> dotenv_file \<Rightarrow> environ \<Rightarrow> (startup_error + pystr) \<times> request list" where
  "module_init installed dotenv env =
     (case import_modules installed [str ''os'', str ''typing'', str ''litellm'', str ''dotenv''] of
        Some e \<Rightarrow> (Inl e, [])
      | None \<Rightarrow>
          (case load_dotenv dotenv env of
             Inl e \<Rightarrow> (Inl e, [])
           | Inr env' \<Rightarrow> (Inr (MODEL_NAME env'), [])))"

section \<open>\<open>get_agent_response\<close>\<close>

definition system_message :: message where
  "system_message = [str ''role'' \<mapsto> str ''system'', str ''content'' \<mapsto> SYSTEM_PROMPT]"

definition assistant_message :: "pystr \<Rightarrow> message" where
  "assistant_message reply = [str ''role'' \<mapsto> str ''assistant'', str ''content'' \<mapsto> reply]"

text \<open>
  The condition \<open>not messages or messages[0]["role"] != "system"\<close>. \<open>or\<close> is
  short-circuit, so the lookup happens only on a non-empty list, and it raises
  \<open>KeyError\<close> when the first dict has no key \<open>"role"\<close>.
\<close>

definition prompt_missing :: "message list \<Rightarrow> error + bool" where
  "prompt_missing messages =
     (case messages of
        [] \<Rightarrow> Inr True
      | m # _ \<Rightarrow>
          (case m (str ''role'') of
             None \<Rightarrow> Inl (KeyError (str ''role''))
           | Some r \<Rightarrow> Inr (r \<noteq> str ''system'')))"

text \<open>The value of the local variable \<open>current_messages\<close> after the \<open>if\<close>.\<close>

definition current_messages :: "message list \<Rightarrow> error + message list" where
  "current_messages messages =
     (case prompt_missing messages of
        Inl e \<Rightarrow> Inl e
      | Inr b \<Rightarrow> Inr (if b then [system_message] @ messages else messages))"

text \<open>\<open>completion["choices"][0]["message"]["content"].strip()\<close>, lookup by lookup.\<close>

definition assistant_reply_content :: "completion \<Rightarrow> error + pystr" where
  "assistant_reply_content completion =
     (case choices completion of
        None \<Rightarrow> Inl (KeyError (str ''choices''))
      | Some [] \<Rightarrow> Inl IndexError
      | Some (c # _) \<Rightarrow>
          (case message c of
             None \<Rightarrow> Inl (KeyError (str ''message''))
           | Some m \<Rightarrow>
               (case content m of
                  None \<Rightarrow> Inl (KeyError (str ''content''))
                | Some PyNone \<Rightarrow> Inl AttributeError
                | Some (PyStr s) \<Rightarrow> Inr (strip s))))"

text \<open>
  The function itself. Its first argument is the value of the module constant
  \<open>MODEL_NAME\<close>, its second the completion capability. It returns what the caller gets
  (an exception or the updated conversation) paired with the requests sent to the
  capability, in order: the outbound call is the function's only effect.
\<close>

definition get_agent_response ::
    "pystr \<Rightarrow> capability \<Rightarrow> message list \<Rightarrow> (error + message list) \<times> request list" where
  "get_agent_response model litellm_completion messages =
     (case current_messages messages of
        Inl e \<Rightarrow> (Inl e, [])
      | Inr cur \<Rightarrow>
          (case litellm_completion model cur of
             Inl x \<Rightarrow> (Inl (CompletionFailure x), [(model, cur)])
           | Inr completion \<Rightarrow>
               (case assistant_reply_content completion of
                  Inl e \<Rightarrow> (Inl e, [(model, cur)])
                | Inr reply \<Rightarrow>
                    (Inr (cur @ [assistant_message reply]), [(model, cur)]))))"

section \<open>The function on a store of objects\<close>

text \<open>
  Python lists and dicts are objects with an identity, and the \<open>else\<close> branch of the
  function binds \<open>current_messages\<close> to the caller's own list. To say what happens to
  the caller's object, the function is modelled a second time on a store: a list of
  objects, where an address is an index and a new object is put at the end. A list
  object holds the addresses of its elements. The function never assigns to an element
  or calls a mutating method; it builds lists with displays and \<open>+\<close>, which allocate.
  The capability is given the conversation found at the address of
  \<open>current_messages\<close>; it is taken to read it only.
\<close>

type_synonym addr = nat

datatype obj = ListObj "addr list" | DictObj message

type_synonym heap = "obj list"

definition alloc :: "heap \<Rightarrow> obj \<Rightarrow> addr \<times> heap" where
  "alloc h ob = (length h, h @ [ob])"

definition list_at :: "heap \<Rightarrow> addr \<Rightarrow> addr list option" where
  "list_at h a =
     (if a < length h then (case h ! a of ListObj rs \<Rightarrow> Some rs | DictObj _ \<Rightarrow> None) else None)"

definition dict_at :: "heap \<Rightarrow> addr \<Rightarrow> message option" where
  "dict_at h a =
     (if a < length h then (case h ! a of DictObj m \<Rightarrow> Some m | ListObj _ \<Rightarrow> None) else None)"

fun dicts_at :: "heap \<Rightarrow> addr list \<Rightarrow> message list option" where
  "dicts_at h [] = Some []"
| "dicts_at h (r # rs) =
     (case dict_at h r of
        None \<Rightarrow> None
      | Some m \<Rightarrow> (case dicts_at h rs of None \<Rightarrow> None | Some ms \<Rightarrow> Some (m # ms)))"

definition conversation_at :: "heap \<Rightarrow> addr \<Rightarrow> message list option" where
  "conversation_at h a = (case list_at h a of None \<Rightarrow> None | Some rs \<Rightarrow> dicts_at h rs)"

definition new_message_list :: "heap \<Rightarrow> message \<Rightarrow> addr \<times> heap" where
  "new_message_list h m =
     (let (d, h1) = alloc h (DictObj m) in alloc h1 (ListObj [d]))"

definition list_add :: "heap \<Rightarrow> addr \<Rightarrow> addr \<Rightarrow> (error + addr) \<times> heap" where
  "list_add h a b =
     (case list_at h a of
        None \<Rightarrow> (Inl TypeError, h)
      | Some xs \<Rightarrow>
          (case list_at h b of
             None \<Rightarrow> (Inl TypeError, h)
           | Some ys \<Rightarrow> (let (r, h1) = alloc h (ListObj (xs @ ys)) in (Inr r, h1))))"

definition heap_prompt_missing :: "heap \<Rightarrow> addr \<Rightarrow> error + bool" where
  "heap_prompt_missing h messages =
     (case list_at h messages of
        None \<Rightarrow> Inl TypeError
      | Some [] \<Rightarrow> Inr True
      | Some (r # _) \<Rightarrow>
          (case dict_at h r of
             None \<Rightarrow> Inl TypeError
           | Some m \<Rightarrow>
               (case m (str ''role'') of
                  None \<Rightarrow> Inl (KeyError (str ''role''))
                | Some v \<Rightarrow> Inr (v \<noteq> str ''system''))))"

definition heap_current_messages :: "heap \<Rightarrow> addr \<Rightarrow> (error + addr) \<times> heap" where
  "heap_current_messages h messages =
     (case heap_prompt_missing h messages of
        Inl e \<Rightarrow> (Inl e, h)
      | Inr b \<Rightarrow>
          (if b then (let (l, h1) = new_message_list h system_message in list_add h1 l messages)
           else (Inr messages, h)))"

definition heap_get_agent_response ::
    "pystr \<Rightarrow> capability \<Rightarrow> addr \<Rightarrow> heap \<Rightarrow> ((error + addr) \<times> request list) \<times> heap" where
  "heap_get_agent_response model litellm_completion messages h =
     (case heap_current_messages h messages of
        (Inl e, h1) \<Rightarrow> ((Inl e, []), h1)
      | (Inr cur, h1) \<Rightarrow>
          (case conversation_at h1 cur of
             None \<Rightarrow> ((Inl TypeError, []), h1)
           | Some sent \<Rightarrow>
               (case litellm_completion model sent of
                  Inl x \<Rightarrow> ((Inl (CompletionFailure x), [(model, sent)]), h1)
                | Inr completion \<Rightarrow>
                    (case assistant_reply_content completion of
                       Inl e \<Rightarrow> ((Inl e, [(model, sent)]), h1)
                     | Inr reply \<Rightarrow>
                         (let (l, h2) = new_message_list h1 (assistant_message reply);
                              (r, h3) = list_add h2 cur l
                          in ((r, [(model, sent)]), h3))))))"

text \<open>
  What the caller reads through the reference it gets back: the exception, or the
  conversation held at the returned address.
\<close>

definition result_at :: "heap \<Rightarrow> error + addr \<Rightarrow> error + message list option" where
  "result_at h r = (case r of Inl e \<Rightarrow> Inl e | Inr u \<Rightarrow> Inr (conversation_at h u))"

section \<open>Example inputs\<close>

text \<open>
  The conversations and capabilities of the specification's scenarios: a user message,
  a caller-supplied system message with a prompt of its own, a dict without the key
  \<open>"role"\<close>, a capability that replies \<open>"  Hello there  "\<close>, one that returns an empty
  list of choices, one that raises, one that raises an \<open>IndexError\<close> of its own, one
  that replies only to a conversation of length one, an installation with every module,
  an environment with no variable and one with a credential only, a store holding the
  conversation \<open>[custom_system_message, user_message]\<close> at address 2, and a store
  holding the empty conversation at address 0.
\<close>

definition user_message :: message where
  "user_message = [str ''role'' \<mapsto> str ''user'', str ''content'' \<mapsto> str ''I have eggs and flour'']"

definition custom_system_message :: message where
  "custom_system_message = [str ''role'' \<mapsto> str ''system'', str ''content'' \<mapsto> str ''custom prompt'']"

definition message_without_role :: message where
  "message_without_role = [str ''content'' \<mapsto> str ''hi'']"

definition reply_with :: "pystr \<Rightarrow> completion" where
  "reply_with s = \<lparr>choices = Some [\<lparr>message = Some \<lparr>content = Some (PyStr s)\<rparr>\<rparr>]\<rparr>"

definition hello_capability :: capability where
  "hello_capability model messages = Inr (reply_with (str ''  Hello there  ''))"


definition failing_capability :: capability where
  "failing_capability model messages = Inl (ProviderException (str ''RateLimitError''))"


definition everything_installed :: "pystr \<Rightarrow> bool" where
  "everything_installed name = True"

definition no_variables :: environ where
  "no_variables = Map.empty"

definition credential_only :: environ where
  "credential_only = [str ''OPENAI_API_KEY'' \<mapsto> str ''sk-test'']"

definition fussy_capability :: capability where
  "fussy_capability model messages =
     (if length messages = 1 then Inr (reply_with (str ''  Hello there  ''))
      else Inl (ProviderException (str ''BadRequestError'')))"

definition example_heap :: heap where
  "example_heap = [DictObj custom_system_message, DictObj user_message, ListObj [0, 1]]"

definition empty_list_heap :: heap where
  "empty_list_heap = [ListObj []]"

section \<open>Basic facts\<close>

lemma str_eq_iff [simp]: "str a = str b \<longleftrightarrow> a = b"
  by (simp add: str_def inj_map_eq_map inj_of_char)

lemma current_messages_Nil [simp]: "current_messages [] = Inr [system_message]"
  by (simp add: current_messages_def prompt_missing_def)

lemma current_messages_Cons:
  "current_messages (m # rest) =
     (case m (str ''role'') of
        None \<Rightarrow> Inl (KeyError (str ''role''))
      | Some r \<Rightarrow> Inr (if r = str ''system'' then m # rest else system_message # m # rest))"
  by (simp add: current_messages_def prompt_missing_def split: option.split)

lemma get_agent_response_current:
  assumes "current_messages messages = Inr cur"
  shows "get_agent_response model cap messages =
     (case cap model cur of
        Inl x \<Rightarrow> (Inl (CompletionFailure x), [(model, cur)])
      | Inr c \<Rightarrow>
          (case assistant_reply_content c of
             Inl e \<Rightarrow> (Inl e, [(model, cur)])
           | Inr reply \<Rightarrow> (Inr (cur @ [assistant_message reply]), [(model, cur)])))"
  using assms by (simp add: get_agent_response_def)

lemma get_agent_response_success:
  assumes "fst (get_agent_response model cap messages) = Inr out"
  shows "\<exists>cur c reply.
      current_messages messages = Inr cur \<and>
      cap model cur = Inr c \<and>
      assistant_reply_content c = Inr reply \<and>
      out = cur @ [assistant_message reply]"
  using assms by (auto simp: get_agent_response_def split: sum.splits)

lemma get_agent_response_requests:
  assumes "current_messages messages = Inr cur"
  shows "snd (get_agent_response model cap messages) = [(model, cur)]"
  using assms by (simp add: get_agent_response_def split: sum.splits)

section \<open>Facts about \<open>strip\<close>\<close>

lemma strip_hello: "strip (str ''  Hello there  '') = str ''Hello there''"
  by (simp add: strip_def str_def isspace_def)

lemma rev_dropWhile_takeWhile:
  "xs = rev (dropWhile P (rev xs)) @ rev (takeWhile P (rev xs))"
proof -
  have "rev (rev xs) = rev (takeWhile P (rev xs) @ dropWhile P (rev xs))"
    by (simp only: takeWhile_dropWhile_id)
  then show ?thesis
    by (simp only: rev_rev_ident rev_append)
qed

lemma strip_suffix:
  "dropWhile isspace s = strip s @ rev (takeWhile isspace (rev (dropWhile isspace s)))"
  unfolding strip_def by (rule rev_dropWhile_takeWhile)

lemma strip_decompose:
  "\<exists>pre suf. s = pre @ strip s @ suf \<and> (\<forall>c\<in>set pre. isspace c) \<and> (\<forall>c\<in>set suf. isspace c)"
proof -
  let ?pre = "takeWhile isspace s"
  let ?suf = "rev (takeWhile isspace (rev (dropWhile isspace s)))"
  have "s = ?pre @ dropWhile isspace s"
    by simp
  then have "s = ?pre @ strip s @ ?suf"
    using strip_suffix [of s] by simp
  moreover have "\<forall>c\<in>set ?pre. isspace c"
    by (auto dest: set_takeWhileD)
  moreover have "\<forall>c\<in>set ?suf. isspace c"
    by (auto dest: set_takeWhileD)
  ultimately show ?thesis by blast
qed

lemma strip_ends:
  assumes "strip s \<noteq> []"
  shows "\<not> isspace (hd (strip s)) \<and> \<not> isspace (last (strip s))"
proof -
  let ?t = "dropWhile isspace s"
  let ?u = "dropWhile isspace (rev ?t)"
  have u: "?u \<noteq> []"
    using assms by (simp add: strip_def)
  then have "\<not> isspace (hd ?u)"
    by (rule hd_dropWhile)
  then have l: "\<not> isspace (last (strip s))"
    using u by (simp add: strip_def last_rev)
  have t: "?t \<noteq> []"
  proof
    assume e: "?t = []"
    have "?u = []" unfolding e by simp
    with u show False by simp
  qed
  then have ht: "\<not> isspace (hd ?t)"
    by (rule hd_dropWhile)
  have "hd ?t = hd (strip s @ rev (takeWhile isspace (rev ?t)))"
    using strip_suffix [of s] by simp
  then have "hd ?t = hd (strip s)"
    using assms by simp
  with ht l show ?thesis by simp
qed

section \<open>Facts about the store model\<close>

lemma list_at_append: "list_at h a = Some rs \<Longrightarrow> list_at (h @ ex) a = Some rs"
  by (auto simp: list_at_def nth_append split: if_splits)

lemma dict_at_append: "dict_at h a = Some m \<Longrightarrow> dict_at (h @ ex) a = Some m"
  by (auto simp: dict_at_def nth_append split: if_splits)

lemma dicts_at_append: "dicts_at h rs = Some ms \<Longrightarrow> dicts_at (h @ ex) rs = Some ms"
  by (induction rs arbitrary: ms) (auto simp: dict_at_append split: option.splits)

lemma conversation_at_append:
  "conversation_at h a = Some ms \<Longrightarrow> conversation_at (h @ ex) a = Some ms"
  by (auto simp: conversation_at_def list_at_append dicts_at_append split: option.splits)

lemma list_at_new [simp]: "list_at (h @ ListObj rs # ex) (length h) = Some rs"
  by (simp add: list_at_def)

lemma dict_at_new [simp]: "dict_at (h @ DictObj m # ex) (length h) = Some m"
  by (simp add: dict_at_def)

lemma list_at_bound: "list_at h a = Some rs \<Longrightarrow> a < length h"
  by (simp add: list_at_def split: if_splits)

lemma dicts_at_app:
  "dicts_at h xs = Some ms \<Longrightarrow> dicts_at h ys = Some ns \<Longrightarrow> dicts_at h (xs @ ys) = Some (ms @ ns)"
  by (induction xs arbitrary: ms) (auto split: option.splits)

lemma heap_prompt_missing_refines:
  "conversation_at h a = Some msgs \<Longrightarrow> heap_prompt_missing h a = prompt_missing msgs"
  by (auto simp: conversation_at_def heap_prompt_missing_def prompt_missing_def
      split: option.splits list.splits)

lemma new_message_list_eq:
  "new_message_list h m = (Suc (length h), h @ [DictObj m, ListObj [length h]])"
  by (simp add: new_message_list_def alloc_def)

lemma heap_current_messages_prepend:
  assumes "conversation_at h a = Some msgs"
      and "prompt_missing msgs = Inr True"
  shows "\<exists>rs. list_at h a = Some rs \<and>
    heap_current_messages h a =
       (Inr (length h + 2),
        h @ [DictObj system_message, ListObj [length h], ListObj (length h # rs)])"
proof -
  from assms(1) obtain rs where rs: "list_at h a = Some rs"
    by (auto simp: conversation_at_def split: option.splits)
  have "list_at (h @ [DictObj system_message, ListObj [length h]]) a = Some rs"
    using rs by (rule list_at_append)
  moreover have "list_at (h @ [DictObj system_message, ListObj [length h]]) (Suc (length h)) = Some [length h]"
    using list_at_new [of "h @ [DictObj system_message]" "[length h]" "[]"] by simp
  ultimately show ?thesis
    using rs assms heap_prompt_missing_refines [OF assms(1)]
    by (simp add: heap_current_messages_def new_message_list_eq list_add_def alloc_def)
qed

lemma heap_current_messages_keep:
  assumes "conversation_at h a = Some msgs"
      and "prompt_missing msgs = Inr False"
  shows "heap_current_messages h a = (Inr a, h)"
  using assms heap_prompt_missing_refines [OF assms(1)]
  by (simp add: heap_current_messages_def)

lemma heap_current_messages_error:
  assumes "conversation_at h a = Some msgs"
      and "prompt_missing msgs = Inl e"
  shows "heap_current_messages h a = (Inl e, h)"
  using assms heap_prompt_missing_refines [OF assms(1)]
  by (simp add: heap_current_messages_def)

lemma heap_current_messages_refines:
  assumes "conversation_at h a = Some msgs"
  shows "\<exists>ex. snd (heap_current_messages h a) = h @ ex \<and>
    (case fst (heap_current_messages h a) of
       Inl e \<Rightarrow> current_messages msgs = Inl e
     | Inr cur \<Rightarrow> \<exists>ms rs. current_messages msgs = Inr ms \<and> list_at (h @ ex) cur = Some rs \<and>
          dicts_at (h @ ex) rs = Some ms)"
proof (cases "prompt_missing msgs")
  case (Inl e)
  then show ?thesis
    using heap_current_messages_error [OF assms Inl]
    by (simp add: current_messages_def)
next
  case (Inr b)
  show ?thesis
  proof (cases b)
    case False
    from assms obtain rs where "list_at h a = Some rs" "dicts_at h rs = Some msgs"
      by (auto simp: conversation_at_def split: option.splits)
    then show ?thesis
      using heap_current_messages_keep [OF assms] Inr False
      by (simp add: current_messages_def)
  next
    case True
    from assms obtain rs where rs: "list_at h a = Some rs" "dicts_at h rs = Some msgs"
      by (auto simp: conversation_at_def split: option.splits)
    let ?ex = "[DictObj system_message, ListObj [length h], ListObj (length h # rs)]"
    have hc: "heap_current_messages h a = (Inr (length h + 2), h @ ?ex)"
      using heap_current_messages_prepend [OF assms] Inr True rs by auto
    have l: "list_at (h @ ?ex) (length h + 2) = Some (length h # rs)"
      using list_at_new [of "h @ [DictObj system_message, ListObj [length h]]" "length h # rs" "[]"]
      by simp
    have d: "dicts_at (h @ ?ex) (length h # rs) = Some (system_message # msgs)"
      using dicts_at_append [OF rs(2), of ?ex] by simp
    show ?thesis
      using hc l d Inr True by (simp add: current_messages_def)
  qed
qed

lemma heap_append_reply:
  assumes l: "list_at h1 cur = Some rs" and d: "dicts_at h1 rs = Some ms"
  shows "\<exists>ex. (let (l, h2) = new_message_list h1 m; (r, h3) = list_add h2 cur l
               in ((r, reqs), h3)) =
              ((Inr (length h1 + 2), reqs), h1 @ ex) \<and>
              conversation_at (h1 @ ex) (length h1 + 2) = Some (ms @ [m])"
proof -
  let ?new = "[DictObj m, ListObj [length h1]]"
  let ?ex = "?new @ [ListObj (rs @ [length h1])]"
  have l2: "list_at (h1 @ ?new) cur = Some rs"
    using l by (rule list_at_append)
  have l3: "list_at (h1 @ ?new) (Suc (length h1)) = Some [length h1]"
    using list_at_new [of "h1 @ [DictObj m]" "[length h1]" "[]"] by simp
  have run: "(let (l, h2) = new_message_list h1 m; (r, h3) = list_add h2 cur l
               in ((r, reqs), h3)) = ((Inr (length h1 + 2), reqs), h1 @ ?ex)"
    using l2 l3 by (simp add: new_message_list_eq list_add_def alloc_def)
  have "list_at (h1 @ ?ex) (length h1 + 2) = Some (rs @ [length h1])"
    using list_at_new [of "h1 @ ?new" "rs @ [length h1]" "[]"] by simp
  moreover have "dicts_at (h1 @ ?ex) rs = Some ms"
    using d by (rule dicts_at_append)
  moreover have "dicts_at (h1 @ ?ex) [length h1] = Some [m]"
    by simp
  ultimately have "conversation_at (h1 @ ?ex) (length h1 + 2) = Some (ms @ [m])"
    by (simp add: conversation_at_def dicts_at_app)
  with run show ?thesis by blast
qed

lemma heap_get_agent_response_refines:
  assumes "conversation_at h a = Some msgs"
  shows "\<exists>ex. snd (heap_get_agent_response model cap a h) = h @ ex \<and>
    snd (fst (heap_get_agent_response model cap a h)) = snd (get_agent_response model cap msgs) \<and>
    (case fst (fst (heap_get_agent_response model cap a h)) of
       Inl e \<Rightarrow> fst (get_agent_response model cap msgs) = Inl e
     | Inr u \<Rightarrow> length h \<le> u \<and>
         (\<exists>out. fst (get_agent_response model cap msgs) = Inr out \<and>
                conversation_at (h @ ex) u = Some out))"
proof -
  obtain r h1 where hc: "heap_current_messages h a = (r, h1)"
    by (cases "heap_current_messages h a")
  from heap_current_messages_refines [OF assms] hc obtain ex1 where
    h1: "h1 = h @ ex1" and
    r: "case r of Inl e \<Rightarrow> current_messages msgs = Inl e
        | Inr cur \<Rightarrow> \<exists>ms rs. current_messages msgs = Inr ms \<and> list_at h1 cur = Some rs \<and>
            dicts_at h1 rs = Some ms"
    by auto
  show ?thesis
  proof (cases r)
    case (Inl e)
    then show ?thesis
      using hc h1 r by (simp add: heap_get_agent_response_def get_agent_response_def)
  next
    case (Inr cur)
    with r obtain ms rs where
      cm: "current_messages msgs = Inr ms" and l: "list_at h1 cur = Some rs" and
      d: "dicts_at h1 rs = Some ms"
      by auto
    have cv: "conversation_at h1 cur = Some ms"
      using l d by (simp add: conversation_at_def)
    show ?thesis
    proof (cases "cap model ms")
      case (Inl x)
      then show ?thesis
        using hc h1 Inr cv cm by (simp add: heap_get_agent_response_def get_agent_response_def)
    next
      case c: (Inr c)
      show ?thesis
      proof (cases "assistant_reply_content c")
        case (Inl e)
        then show ?thesis
          using hc h1 Inr cv cm c
          by (simp add: heap_get_agent_response_def get_agent_response_def)
      next
        case reply: (Inr reply)
        from heap_append_reply [OF l d, of "assistant_message reply" "[(model, ms)]"]
        obtain ex2 where
          run: "(let (l, h2) = new_message_list h1 (assistant_message reply);
                     (r, h3) = list_add h2 cur l
                 in ((r, [(model, ms)]), h3)) = ((Inr (length h1 + 2), [(model, ms)]), h1 @ ex2)" and
          out: "conversation_at (h1 @ ex2) (length h1 + 2) = Some (ms @ [assistant_message reply])"
          by blast
        have "heap_get_agent_response model cap a h =
                ((Inr (length h1 + 2), [(model, ms)]), h @ (ex1 @ ex2))"
          using hc Inr cv c reply run h1 by (simp add: heap_get_agent_response_def)
        moreover have "get_agent_response model cap msgs =
                (Inr (ms @ [assistant_message reply]), [(model, ms)])"
          using cm c reply by (simp add: get_agent_response_def)
        ultimately show ?thesis
          using out h1 by (intro exI [of _ "ex1 @ ex2"]) simp
      qed
    qed
  qed
qed

lemma heap_get_agent_response_capability:
  assumes "conversation_at h a = Some msgs"
      and "\<forall>cur. current_messages msgs = Inr cur \<longrightarrow> cap' model cur = cap model cur"
  shows "heap_get_agent_response model cap' a h = heap_get_agent_response model cap a h"
proof -
  obtain r h1 where hc: "heap_current_messages h a = (r, h1)"
    by (cases "heap_current_messages h a")
  from heap_current_messages_refines [OF assms(1)] hc have
    r: "case r of Inl e \<Rightarrow> current_messages msgs = Inl e
        | Inr cur \<Rightarrow> \<exists>ms rs. current_messages msgs = Inr ms \<and> list_at h1 cur = Some rs \<and>
            dicts_at h1 rs = Some ms"
    by auto
  show ?thesis
  proof (cases r)
    case (Inl e)
    then show ?thesis
      using hc by (simp add: heap_get_agent_response_def)
  next
    case (Inr cur)
    with r obtain ms rs where
      cm: "current_messages msgs = Inr ms" and l: "list_at h1 cur = Some rs" and
      d: "dicts_at h1 rs = Some ms"
      by auto
    have cv: "conversation_at h1 cur = Some ms"
      using l d by (simp add: conversation_at_def)
    have "cap' model ms = cap model ms"
      using assms(2) cm by simp
    then show ?thesis
      using hc Inr cv by (simp add: heap_get_agent_response_def)
  qed
qed

lemma result_at_refines:
  assumes "conversation_at h a = Some msgs"
      and "heap_get_agent_response model cap a h = ((r, reqs), h1)"
  shows "reqs = snd (get_agent_response model cap msgs) \<and>
         (\<exists>ex. h1 = h @ ex) \<and>
         (\<forall>ex. result_at (h1 @ ex) r = map_sum id Some (fst (get_agent_response model cap msgs)))"
proof -
  from heap_get_agent_response_refines [OF assms(1), of model cap] assms(2) obtain ex1 where
    h1: "h1 = h @ ex1" and
    reqs: "reqs = snd (get_agent_response model cap msgs)" and
    res: "case r of
       Inl e \<Rightarrow> fst (get_agent_response model cap msgs) = Inl e
     | Inr u \<Rightarrow> length h \<le> u \<and>
         (\<exists>out. fst (get_agent_response model cap msgs) = Inr out \<and>
                conversation_at h1 u = Some out)"
    by auto
  have "result_at (h1 @ ex) r = map_sum id Some (fst (get_agent_response model cap msgs))" for ex
  proof (cases r)
    case (Inl e)
    then show ?thesis
      using res by (simp add: result_at_def)
  next
    case (Inr u)
    with res obtain out where
      out: "fst (get_agent_response model cap msgs) = Inr out" "conversation_at h1 u = Some out"
      by auto
    have "conversation_at (h1 @ ex) u = Some out"
      using out(2) by (rule conversation_at_append)
    then show ?thesis
      using Inr out(1) by (simp add: result_at_def)
  qed
  then show ?thesis
    using h1 reqs by blast
qed

section \<open>Example runs\<close>

lemma custom_prompt_differs: "str ''custom prompt'' \<noteq> SYSTEM_PROMPT"
  by (simp add: SYSTEM_PROMPT_def)

lemma hello_reply:
  "assistant_reply_content (reply_with (str ''  Hello there  '')) = Inr (str ''Hello there'')"
  by (simp add: assistant_reply_content_def reply_with_def strip_hello)

lemma run_user:
  "get_agent_response model hello_capability [user_message] =
     (Inr [system_message, user_message, assistant_message (str ''Hello there'')],
      [(model, [system_message, user_message])])"
  by (simp add: get_agent_response_def current_messages_Cons user_message_def
      hello_capability_def hello_reply)

lemma run_empty:
  "get_agent_response model hello_capability [] =
     (Inr [system_message, assistant_message (str ''Hello there'')], [(model, [system_message])])"
  by (simp add: get_agent_response_def hello_capability_def hello_reply)

lemma run_custom:
  "get_agent_response model hello_capability [custom_system_message, user_message] =
     (Inr [custom_system_message, user_message, assistant_message (str ''Hello there'')],
      [(model, [custom_system_message, user_message])])"
  by (simp add: get_agent_response_def current_messages_Cons custom_system_message_def
      hello_capability_def hello_reply)

lemma example_heap_conversation:
  "conversation_at example_heap 2 = Some [custom_system_message, user_message]"
  by (simp add: conversation_at_def list_at_def dict_at_def example_heap_def)

lemma example_heap_run:
  "heap_get_agent_response model hello_capability 2 example_heap =
     ((Inr 5, [(model, [custom_system_message, user_message])]),
      example_heap @ [DictObj (assistant_message (str ''Hello there'')), ListObj [3], ListObj [0, 1, 3]])"
proof -
  have l: "list_at example_heap 2 = Some [0, 1]"
    by (simp add: list_at_def example_heap_def)
  have len: "length example_heap = 3"
    by (simp add: example_heap_def)
  have d: "dict_at example_heap 0 = Some custom_system_message"
    by (simp add: dict_at_def example_heap_def)
  have hc: "heap_current_messages example_heap 2 = (Inr 2, example_heap)"
    using l d by (simp add: heap_current_messages_def heap_prompt_missing_def custom_system_message_def)
  have l4: "list_at (example_heap @ [DictObj (assistant_message (str ''Hello there'')), ListObj [3]]) 4 = Some [3]"
    by (simp add: list_at_def example_heap_def)
  have l2: "list_at (example_heap @ [DictObj (assistant_message (str ''Hello there'')), ListObj [3]]) 2 = Some [0, 1]"
    by (simp add: list_at_def example_heap_def)
  show ?thesis
    using hc example_heap_conversation l4 l2 len
    by (simp add: heap_get_agent_response_def hello_capability_def hello_reply
        new_message_list_eq list_add_def alloc_def)
qed

lemma empty_list_heap_conversation: "conversation_at empty_list_heap 0 = Some []"
  by (simp add: conversation_at_def list_at_def empty_list_heap_def)

lemma empty_list_heap_run:
  "heap_get_agent_response model hello_capability 0 empty_list_heap =
     ((Inr 6, [(model, [system_message])]),
      empty_list_heap @
        [DictObj system_message, ListObj [1], ListObj [1],
         DictObj (assistant_message (str ''Hello there'')), ListObj [4], ListObj [1, 4]])"
  by (simp add: heap_get_agent_response_def heap_current_messages_def heap_prompt_missing_def
      new_message_list_def list_add_def alloc_def list_at_def dict_at_def conversation_at_def
      empty_list_heap_def hello_capability_def hello_reply)

lemma empty_list_heap_second_run:
  "heap_get_agent_response model hello_capability 0
     (empty_list_heap @
        [DictObj system_message, ListObj [1], ListObj [1],
         DictObj (assistant_message (str ''Hello there'')), ListObj [4], ListObj [1, 4]]) =
     ((Inr 12, [(model, [system_message])]),
      empty_list_heap @
        [DictObj system_message, ListObj [1], ListObj [1],
         DictObj (assistant_message (str ''Hello there'')), ListObj [4], ListObj [1, 4],
         DictObj system_message, ListObj [7], ListObj [7],
         DictObj (assistant_message (str ''Hello there'')), ListObj [10], ListObj [7, 10]])"
  by (simp add: heap_get_agent_response_def heap_current_messages_def heap_prompt_missing_def
      new_message_list_def list_add_def alloc_def list_at_def dict_at_def conversation_at_def
      empty_list_heap_def hello_capability_def hello_reply)

section \<open>Prefixing the system prompt\<close>

text \<open>
  C1 (default prefixing). When the history is empty, or its first message has a role
  other than \<open>"system"\<close>, the conversation the function works on is the system message
  (role \<open>"system"\<close>, content \<open>SYSTEM_PROMPT\<close>) followed by the whole history in order.
  That conversation is what is sent to the capability, and whenever a conversation is
  returned it is that conversation followed by one more message.
\<close>

theorem C1_default_prefixing:
  assumes "messages = [] \<or>
           (\<exists>m rest r. messages = m # rest \<and> m (str ''role'') = Some r \<and> r \<noteq> str ''system'')"
  shows "current_messages messages = Inr ([system_message] @ messages) \<and>
         system_message = [str ''role'' \<mapsto> str ''system'', str ''content'' \<mapsto> SYSTEM_PROMPT] \<and>
         snd (get_agent_response model cap messages) = [(model, [system_message] @ messages)] \<and>
         (\<forall>out. fst (get_agent_response model cap messages) = Inr out \<longrightarrow>
                butlast out = [system_message] @ messages)"
proof -
  have cur: "current_messages messages = Inr ([system_message] @ messages)"
    using assms by (auto simp: current_messages_Cons)
  have sent: "snd (get_agent_response model cap messages) = [(model, [system_message] @ messages)]"
    using cur by (rule get_agent_response_requests)
  have ret: "butlast out = [system_message] @ messages"
    if "fst (get_agent_response model cap messages) = Inr out" for out
    using get_agent_response_success [OF that] cur by auto
  show ?thesis
    using cur sent ret by (simp add: system_message_def)
qed

theorem C1_witness:
  "current_messages [user_message] = Inr [system_message, user_message] \<and>
   current_messages [] = Inr [system_message] \<and>
   snd (get_agent_response (str ''gpt-4o-mini'') hello_capability [user_message]) =
     [(str ''gpt-4o-mini'', [system_message, user_message])] \<and>
   fst (get_agent_response (str ''gpt-4o-mini'') hello_capability [user_message]) =
     Inr [system_message, user_message, assistant_message (str ''Hello there'')] \<and>
   butlast [system_message, user_message, assistant_message (str ''Hello there'')] =
     [system_message] @ [user_message]"
proof -
  have h: "[user_message] = [] \<or>
           (\<exists>m rest r. [user_message] = m # rest \<and> m (str ''role'') = Some r \<and> r \<noteq> str ''system'')"
    by (simp add: user_message_def)
  have h0: "([] :: message list) = [] \<or>
           (\<exists>m rest r. [] = m # rest \<and> m (str ''role'') = Some r \<and> r \<noteq> str ''system'')"
    by simp
  show ?thesis
    using C1_default_prefixing [OF h, of "str ''gpt-4o-mini''" hello_capability]
      C1_default_prefixing [OF h0, of "str ''gpt-4o-mini''" hello_capability]
      run_user [of "str ''gpt-4o-mini''"]
    by simp
qed

text \<open>
  C2 (idempotent prefixing). When the first message of a non-empty history has the role
  \<open>"system"\<close>, the history itself is the conversation the function works on: it is
  what is sent, and a returned conversation is the history followed by one assistant
  message. Its first element is the caller's message, whatever its content, and it has
  as many messages of role \<open>"system"\<close> as the history, in the same places.
\<close>

theorem C2_caller_system_message_kept:
  assumes "messages = m # rest" and "m (str ''role'') = Some (str ''system'')"
  shows "current_messages messages = Inr messages \<and>
         snd (get_agent_response model cap messages) = [(model, messages)] \<and>
         (\<forall>out. fst (get_agent_response model cap messages) = Inr out \<longrightarrow>
            butlast out = messages \<and> hd out = m \<and>
            (\<exists>reply. last out = assistant_message reply) \<and>
            filter (\<lambda>x. x (str ''role'') = Some (str ''system'')) out =
            filter (\<lambda>x. x (str ''role'') = Some (str ''system'')) messages)"
proof -
  have cur: "current_messages messages = Inr messages"
    using assms by (simp add: current_messages_Cons)
  have sent: "snd (get_agent_response model cap messages) = [(model, messages)]"
    using cur by (rule get_agent_response_requests)
  have ret: "butlast out = messages \<and> hd out = m \<and>
            (\<exists>reply. last out = assistant_message reply) \<and>
            filter (\<lambda>x. x (str ''role'') = Some (str ''system'')) out =
            filter (\<lambda>x. x (str ''role'') = Some (str ''system'')) messages"
    if "fst (get_agent_response model cap messages) = Inr out" for out
  proof -
    from get_agent_response_success [OF that] cur obtain reply where
      out: "out = messages @ [assistant_message reply]"
      by auto
    have "assistant_message reply (str ''role'') \<noteq> Some (str ''system'')"
      by (simp add: assistant_message_def)
    then show ?thesis
      using out assms(1) by auto
  qed
  show ?thesis
    using cur sent ret by blast
qed

theorem C2_witness:
  "custom_system_message (str ''role'') = Some (str ''system'') \<and>
   custom_system_message (str ''content'') = Some (str ''custom prompt'') \<and>
   str ''custom prompt'' \<noteq> SYSTEM_PROMPT \<and>
   current_messages [custom_system_message, user_message] =
     Inr [custom_system_message, user_message] \<and>
   get_agent_response (str ''gpt-4o-mini'') hello_capability [custom_system_message, user_message] =
     (Inr [custom_system_message, user_message, assistant_message (str ''Hello there'')],
      [(str ''gpt-4o-mini'', [custom_system_message, user_message])]) \<and>
   hd [custom_system_message, user_message, assistant_message (str ''Hello there'')] =
     custom_system_message \<and>
   filter (\<lambda>x. x (str ''role'') = Some (str ''system''))
     [custom_system_message, user_message, assistant_message (str ''Hello there'')] =
   filter (\<lambda>x. x (str ''role'') = Some (str ''system'')) [custom_system_message, user_message]"
proof -
  have r: "custom_system_message (str ''role'') = Some (str ''system'')"
    by (simp add: custom_system_message_def)
  have c: "custom_system_message (str ''content'') = Some (str ''custom prompt'')"
    by (simp add: custom_system_message_def)
  show ?thesis
    using C2_caller_system_message_kept [where messages = "[custom_system_message, user_message]"
          and m = custom_system_message and rest = "[user_message]"
          and model = "str ''gpt-4o-mini''" and cap = hello_capability, OF refl r]
      run_custom [of "str ''gpt-4o-mini''"] r c custom_prompt_differs
    by simp
qed

section \<open>The returned conversation\<close>

text \<open>
  C3 (append-only growth). A returned conversation is the conversation that was sent
  followed by exactly one message, whose role is \<open>"assistant"\<close>; its length is one more
  than that of the conversation sent, and it is longer than the input history.
\<close>

theorem C3_append_only_growth:
  assumes "fst (get_agent_response model cap messages) = Inr out"
  shows "\<exists>cur reply. current_messages messages = Inr cur \<and>
           snd (get_agent_response model cap messages) = [(model, cur)] \<and>
           out = cur @ [assistant_message reply] \<and>
           length out = length cur + 1 \<and>
           last out (str ''role'') = Some (str ''assistant'') \<and>
           length messages < length out"
proof -
  from get_agent_response_success [OF assms] obtain cur reply where
    cur: "current_messages messages = Inr cur" and out: "out = cur @ [assistant_message reply]"
    by blast
  have "length messages \<le> length cur"
    using cur by (auto simp: current_messages_def split: sum.splits if_splits)
  moreover have "snd (get_agent_response model cap messages) = [(model, cur)]"
    using cur by (rule get_agent_response_requests)
  ultimately show ?thesis
    using cur out by (auto simp: assistant_message_def)
qed

theorem C3_witness:
  "fst (get_agent_response (str ''gpt-4o-mini'') hello_capability []) =
     Inr [system_message, assistant_message (str ''Hello there'')] \<and>
   (\<exists>cur reply. current_messages [] = Inr cur \<and>
      snd (get_agent_response (str ''gpt-4o-mini'') hello_capability []) = [(str ''gpt-4o-mini'', cur)] \<and>
      [system_message, assistant_message (str ''Hello there'')] = cur @ [assistant_message reply] \<and>
      length [system_message, assistant_message (str ''Hello there'')] = length cur + 1 \<and>
      last [system_message, assistant_message (str ''Hello there'')] (str ''role'') =
        Some (str ''assistant'') \<and>
      length ([] :: message list) < length [system_message, assistant_message (str ''Hello there'')])"
proof -
  have run: "fst (get_agent_response (str ''gpt-4o-mini'') hello_capability []) =
     Inr [system_message, assistant_message (str ''Hello there'')]"
    by (simp add: run_empty)
  show ?thesis
    using run C3_append_only_growth [OF run] by blast
qed

section \<open>Errors\<close>




text \<open>
  C6 (completion failure). When the capability raises on the conversation sent, the
  function leaves with that exception as \<open>CompletionFailure\<close> after its one request,
  and returns no conversation. In every case the caller gets either an error or the
  complete extended conversation (the conversation sent followed by the assistant
  message), never a part of it.
\<close>

theorem C6_completion_failure:
  "(current_messages messages = Inr cur \<and> cap model cur = Inl x \<longrightarrow>
      get_agent_response model cap messages = (Inl (CompletionFailure x), [(model, cur)])) \<and>
   ((\<exists>e. fst (get_agent_response model cap messages) = Inl e) \<or>
    (\<exists>cur reply. current_messages messages = Inr cur \<and>
       fst (get_agent_response model cap messages) = Inr (cur @ [assistant_message reply])))"
  by (auto simp: get_agent_response_def split: sum.splits)

theorem C6_witness:
  "current_messages [user_message] = Inr [system_message, user_message] \<and>
   failing_capability (str ''gpt-4o-mini'') [system_message, user_message] =
     Inl (ProviderException (str ''RateLimitError'')) \<and>
   get_agent_response (str ''gpt-4o-mini'') failing_capability [user_message] =
     (Inl (CompletionFailure (ProviderException (str ''RateLimitError''))),
      [(str ''gpt-4o-mini'', [system_message, user_message])])"
proof -
  have cur: "current_messages [user_message] = Inr [system_message, user_message]"
    by (simp add: current_messages_Cons user_message_def)
  have cap: "failing_capability (str ''gpt-4o-mini'') [system_message, user_message] =
     Inl (ProviderException (str ''RateLimitError''))"
    by (simp add: failing_capability_def)
  show ?thesis
    using C6_completion_failure [of "[user_message]" "[system_message, user_message]"
        failing_capability "str ''gpt-4o-mini''" "ProviderException (str ''RateLimitError'')"]
      cur cap
    by simp
qed

text \<open>
  C5 (configuration at startup), as the code has it. An absent configuration value
  raises nothing at startup. Initialisation completes exactly when the four imports
  succeed and the \<open>.env\<close> file, if there is one, can be decoded, whatever the
  environment holds. \<open>MODEL_NAME\<close> is then the environment's value when there is one,
  else the value of the \<open>.env\<close> file when it has one, else the fallback
  \<open>"gpt-4o-mini"\<close>. The outcome is the same for two environments that agree on
  \<open>MODEL_NAME\<close>, so no credential is looked at; and the top-level statements send no
  request to the completion capability.
\<close>

theorem C5_absent_value_no_error:
  "(\<exists>v. fst (module_init installed dotenv env) = Inr v) =
     (installed (str ''os'') \<and> installed (str ''typing'') \<and> installed (str ''litellm'') \<and>
      installed (str ''dotenv'') \<and> dotenv \<noteq> Undecodable) \<and>
   (\<forall>v. fst (module_init installed dotenv env) = Inr v \<longrightarrow>
      v = (case env (str ''MODEL_NAME'') of
             Some name \<Rightarrow> name
           | None \<Rightarrow>
               (case dotenv of
                  Variables vars \<Rightarrow>
                    (case vars (str ''MODEL_NAME'') of
                       Some name \<Rightarrow> name
                     | None \<Rightarrow> str ''gpt-4o-mini'')
                | _ \<Rightarrow> str ''gpt-4o-mini''))) \<and>
   (\<forall>env'. env' (str ''MODEL_NAME'') = env (str ''MODEL_NAME'') \<longrightarrow>
      module_init installed dotenv env' = module_init installed dotenv env) \<and>
   snd (module_init installed dotenv env) = []"
proof -
  have ok: "(\<exists>v. fst (module_init installed dotenv env) = Inr v) =
     (installed (str ''os'') \<and> installed (str ''typing'') \<and> installed (str ''litellm'') \<and>
      installed (str ''dotenv'') \<and> dotenv \<noteq> Undecodable)"
    by (cases dotenv) (simp_all add: module_init_def load_dotenv_def)
  have val: "v = (case env (str ''MODEL_NAME'') of
             Some name \<Rightarrow> name
           | None \<Rightarrow>
               (case dotenv of
                  Variables vars \<Rightarrow>
                    (case vars (str ''MODEL_NAME'') of
                       Some name \<Rightarrow> name
                     | None \<Rightarrow> str ''gpt-4o-mini'')
                | _ \<Rightarrow> str ''gpt-4o-mini''))"
    if "fst (module_init installed dotenv env) = Inr v" for v
    using that
    by (cases dotenv)
      (auto simp: module_init_def load_dotenv_def MODEL_NAME_def map_add_def
        split: if_splits option.splits)
  have indep: "module_init installed dotenv env' = module_init installed dotenv env"
    if "env' (str ''MODEL_NAME'') = env (str ''MODEL_NAME'')" for env'
    using that
    by (cases dotenv)
      (simp_all add: module_init_def load_dotenv_def MODEL_NAME_def map_add_def
        split: option.splits)
  have req: "snd (module_init installed dotenv env) = []"
    by (simp add: module_init_def split: option.splits sum.splits)
  show ?thesis
    using ok val indep req by blast
qed

theorem C5_witness:
  "credential_only (str ''MODEL_NAME'') = no_variables (str ''MODEL_NAME'') \<and>
   module_init everything_installed (Variables no_variables) credential_only =
     module_init everything_installed (Variables no_variables) no_variables \<and>
   fst (module_init everything_installed (Variables no_variables) no_variables) =
     Inr (str ''gpt-4o-mini'') \<and>
   snd (module_init everything_installed (Variables no_variables) no_variables) = []"
proof -
  have same: "credential_only (str ''MODEL_NAME'') = no_variables (str ''MODEL_NAME'')"
    by (simp add: credential_only_def no_variables_def)
  have run: "fst (module_init everything_installed (Variables no_variables) no_variables) =
     Inr (str ''gpt-4o-mini'')"
    by (simp add: module_init_def load_dotenv_def MODEL_NAME_def no_variables_def
        everything_installed_def)
  note init = C5_absent_value_no_error [of everything_installed "Variables no_variables" no_variables]
  have indep: "\<forall>env'. env' (str ''MODEL_NAME'') = no_variables (str ''MODEL_NAME'') \<longrightarrow>
      module_init everything_installed (Variables no_variables) env' =
      module_init everything_installed (Variables no_variables) no_variables"
    using init by (elim conjE)
  have req: "snd (module_init everything_installed (Variables no_variables) no_variables) = []"
    using init by (elim conjE)
  have "module_init everything_installed (Variables no_variables) credential_only =
      module_init everything_installed (Variables no_variables) no_variables"
    using same by (rule indep [rule_format])
  then show ?thesis
    using same run req by (intro conjI)
qed

text \<open>
  With every module installed, no \<open>.env\<close> file and no variable in the environment at
  all (neither \<open>MODEL_NAME\<close> nor a credential), initialisation succeeds with the
  fallback model name: nothing is raised at startup.
\<close>

theorem C5_counterexample:
  "no_variables (str ''MODEL_NAME'') = None \<and> no_variables (str ''OPENAI_API_KEY'') = None \<and>
   dom no_variables = {} \<and>
   module_init everything_installed NoFile no_variables = (Inr (str ''gpt-4o-mini''), [])"
  by (simp add: no_variables_def module_init_def MODEL_NAME_def load_dotenv_def
      everything_installed_def)

section \<open>Whitespace trimming\<close>

text \<open>
  C7 (whitespace trimming). When the capability returns a completion whose first choice
  has the reply text \<open>reply\<close>, the appended assistant message has the content
  \<open>strip reply\<close>: \<open>reply\<close> is that content between a prefix and a suffix made of
  whitespace only, and the content, when not empty, neither starts nor ends with
  whitespace.
\<close>

theorem C7_whitespace_trimming:
  assumes "current_messages messages = Inr cur" and "cap model cur = Inr c"
    and "choices c = Some (ch # chs)" and "message ch = Some m"
    and "content m = Some (PyStr reply)"
  shows "fst (get_agent_response model cap messages) =
           Inr (cur @ [assistant_message (strip reply)]) \<and>
         assistant_message (strip reply) (str ''content'') = Some (strip reply) \<and>
         (\<exists>pre suf. reply = pre @ strip reply @ suf \<and>
            (\<forall>c\<in>set pre. isspace c) \<and> (\<forall>c\<in>set suf. isspace c)) \<and>
         (strip reply \<noteq> [] \<longrightarrow>
            \<not> isspace (hd (strip reply)) \<and> \<not> isspace (last (strip reply)))"
proof -
  have "assistant_reply_content c = Inr (strip reply)"
    using assms(3-5) by (simp add: assistant_reply_content_def)
  then have "fst (get_agent_response model cap messages) =
           Inr (cur @ [assistant_message (strip reply)])"
    using get_agent_response_current [OF assms(1), of model cap] assms(2) by simp
  moreover have "assistant_message (strip reply) (str ''content'') = Some (strip reply)"
    by (simp add: assistant_message_def)
  ultimately show ?thesis
    using strip_decompose [of reply] strip_ends [of reply] by blast
qed

theorem C7_witness:
  "fst (get_agent_response (str ''gpt-4o-mini'') hello_capability [user_message]) =
     Inr ([system_message, user_message] @ [assistant_message (str ''Hello there'')]) \<and>
   assistant_message (str ''Hello there'') (str ''content'') = Some (str ''Hello there'') \<and>
   strip (str ''  Hello there  '') = str ''Hello there''"
proof -
  have cur: "current_messages [user_message] = Inr [system_message, user_message]"
    by (simp add: current_messages_Cons user_message_def)
  have cap: "hello_capability (str ''gpt-4o-mini'') [system_message, user_message] =
      Inr (reply_with (str ''  Hello there  ''))"
    by (simp add: hello_capability_def)
  have ch: "choices (reply_with (str ''  Hello there  '')) =
      Some (\<lparr>message = Some \<lparr>content = Some (PyStr (str ''  Hello there  ''))\<rparr>\<rparr> # [])"
    by (simp add: reply_with_def)
  have m: "message \<lparr>message = Some \<lparr>content = Some (PyStr (str ''  Hello there  ''))\<rparr>\<rparr> =
      Some \<lparr>content = Some (PyStr (str ''  Hello there  ''))\<rparr>"
    by simp
  have c: "content \<lparr>content = Some (PyStr (str ''  Hello there  ''))\<rparr> =
      Some (PyStr (str ''  Hello there  ''))"
    by simp
  show ?thesis
    using C7_whitespace_trimming [where cap = hello_capability
          and model = "str ''gpt-4o-mini''" and messages = "[user_message]"
          and cur = "[system_message, user_message]"
          and c = "reply_with (str ''  Hello there  '')"
          and m = "\<lparr>content = Some (PyStr (str ''  Hello there  ''))\<rparr>"
          and reply = "str ''  Hello there  ''", OF cur cap ch m c]
      strip_hello
    by simp
qed

section \<open>The caller's list\<close>

text \<open>
  C8 (non-mutation). On the store, for a history held at the address \<open>messages\<close>: every
  object that existed before the call is unchanged after it (the store only grows at
  its end), so the caller's list object and the conversation read through it are what
  they were; and a returned conversation is a list object at a new address, different
  from \<open>messages\<close>, holding the conversation that \<open>get_agent_response\<close> computes.
\<close>

theorem C8_input_not_mutated:
  assumes "conversation_at h messages = Some msgs"
  shows "take (length h) (snd (heap_get_agent_response model cap messages h)) = h \<and>
         list_at (snd (heap_get_agent_response model cap messages h)) messages = list_at h messages \<and>
         conversation_at (snd (heap_get_agent_response model cap messages h)) messages = Some msgs \<and>
         (\<forall>u. fst (fst (heap_get_agent_response model cap messages h)) = Inr u \<longrightarrow>
            u \<noteq> messages \<and> length h \<le> u \<and>
            (\<exists>out. fst (get_agent_response model cap msgs) = Inr out \<and>
               conversation_at (snd (heap_get_agent_response model cap messages h)) u = Some out))"
proof -
  from heap_get_agent_response_refines [OF assms, of model cap] obtain ex where
    ex: "snd (heap_get_agent_response model cap messages h) = h @ ex" and
    res: "case fst (fst (heap_get_agent_response model cap messages h)) of
       Inl e \<Rightarrow> fst (get_agent_response model cap msgs) = Inl e
     | Inr u \<Rightarrow> length h \<le> u \<and>
         (\<exists>out. fst (get_agent_response model cap msgs) = Inr out \<and>
                conversation_at (h @ ex) u = Some out)"
    by blast
  from assms obtain rs where rs: "list_at h messages = Some rs"
    by (auto simp: conversation_at_def split: option.splits)
  have bound: "messages < length h"
    using rs by (rule list_at_bound)
  have "list_at (h @ ex) messages = list_at h messages"
    using list_at_append [OF rs, of ex] rs by simp
  moreover have "conversation_at (h @ ex) messages = Some msgs"
    using assms by (rule conversation_at_append)
  ultimately show ?thesis
    using ex res bound by (auto split: sum.splits)
qed

theorem C8_witness:
  "conversation_at example_heap 2 = Some [custom_system_message, user_message] \<and>
   heap_get_agent_response (str ''gpt-4o-mini'') hello_capability 2 example_heap =
     ((Inr 5, [(str ''gpt-4o-mini'', [custom_system_message, user_message])]),
      example_heap @ [DictObj (assistant_message (str ''Hello there'')), ListObj [3], ListObj [0, 1, 3]]) \<and>
   take (length example_heap)
     (example_heap @ [DictObj (assistant_message (str ''Hello there'')), ListObj [3], ListObj [0, 1, 3]]) =
     example_heap \<and>
   list_at (example_heap @ [DictObj (assistant_message (str ''Hello there'')), ListObj [3], ListObj [0, 1, 3]]) 2 =
     list_at example_heap 2 \<and>
   conversation_at
     (example_heap @ [DictObj (assistant_message (str ''Hello there'')), ListObj [3], ListObj [0, 1, 3]]) 2 =
     Some [custom_system_message, user_message] \<and>
   (5::nat) \<noteq> 2"
  using C8_input_not_mutated [OF example_heap_conversation, of "str ''gpt-4o-mini''" hello_capability]
    example_heap_run [of "str ''gpt-4o-mini''"] example_heap_conversation
  by simp

section \<open>The role lookup\<close>

text \<open>
  C9 (partial role lookup). The function leaves with \<open>KeyError\<close> for the key
  \<open>"role"\<close>, having sent no request, exactly when the history is non-empty and its
  first message has no key \<open>"role"\<close>. For any other history (empty, or with a role in
  its first message) the result is never that error.
\<close>

theorem C9_role_lookup_partial:
  "(get_agent_response model cap messages = (Inl (KeyError (str ''role'')), [])) =
     (\<exists>m rest. messages = m # rest \<and> m (str ''role'') = None) \<and>
   (fst (get_agent_response model cap messages) = Inl (KeyError (str ''role''))) =
     (\<exists>m rest. messages = m # rest \<and> m (str ''role'') = None)"
proof (cases messages)
  case Nil
  then show ?thesis
    by (auto simp: get_agent_response_def assistant_reply_content_def
        split: sum.splits option.splits list.splits py_value.splits)
next
  case (Cons m rest)
  then show ?thesis
    by (auto simp: get_agent_response_def current_messages_Cons assistant_reply_content_def
        split: sum.splits option.splits list.splits py_value.splits)
qed

theorem C9_witness:
  "message_without_role (str ''role'') = None \<and>
   get_agent_response (str ''gpt-4o-mini'') hello_capability [message_without_role, user_message] =
     (Inl (KeyError (str ''role'')), []) \<and>
   fst (get_agent_response (str ''gpt-4o-mini'') hello_capability [user_message]) \<noteq>
     Inl (KeyError (str ''role''))"
proof -
  have n: "message_without_role (str ''role'') = None"
    by (simp add: message_without_role_def)
  have u: "user_message (str ''role'') \<noteq> None"
    by (simp add: user_message_def)
  show ?thesis
    using C9_role_lookup_partial [of "str ''gpt-4o-mini''" hello_capability "[message_without_role, user_message]"]
      C9_role_lookup_partial [of "str ''gpt-4o-mini''" hello_capability "[user_message]"] n u
    by simp
qed

section \<open>Determinism\<close>

text \<open>
  C10 (determinism). On the store, where one call leaves objects behind for the next:
  take a call on a history held at \<open>a\<close>, and after it a second call with the same
  model name and capability on a history of equal value held at \<open>b\<close> (the same list or
  another). Both calls send the same requests, and the caller reads the same outcome
  from both: the same error, or equal conversations. What the first call returned
  still reads the same after the second. That outcome is the one \<open>get_agent_response\<close>
  computes from the history's value, the request is the one conversation built from
  the history (none when the role lookup fails), and a capability that answers that
  request alike gives the same call: nothing else of the store or of the capability
  has an influence.
\<close>

theorem C10_deterministic:
  assumes "conversation_at h a = Some msgs"
      and "heap_get_agent_response model cap a h = ((r1, reqs1), h1)"
      and "conversation_at h1 b = Some msgs"
      and "heap_get_agent_response model cap b h1 = ((r2, reqs2), h2)"
  shows "reqs2 = reqs1 \<and>
         result_at h2 r2 = result_at h1 r1 \<and>
         result_at h2 r1 = result_at h1 r1 \<and>
         result_at h1 r1 = map_sum id Some (fst (get_agent_response model cap msgs)) \<and>
         reqs1 = (case current_messages msgs of Inl e \<Rightarrow> [] | Inr cur \<Rightarrow> [(model, cur)]) \<and>
         (\<forall>cap'. (\<forall>cur. current_messages msgs = Inr cur \<longrightarrow> cap' model cur = cap model cur) \<longrightarrow>
            heap_get_agent_response model cap' a h = ((r1, reqs1), h1))"
proof -
  from result_at_refines [OF assms(1,2)] have
    reqs1: "reqs1 = snd (get_agent_response model cap msgs)" and
    res1: "\<forall>ex. result_at (h1 @ ex) r1 = map_sum id Some (fst (get_agent_response model cap msgs))"
    by blast+
  from result_at_refines [OF assms(3,4)] obtain ex2 where
    reqs2: "reqs2 = snd (get_agent_response model cap msgs)" and
    h2: "h2 = h1 @ ex2" and
    res2: "\<forall>ex. result_at (h2 @ ex) r2 = map_sum id Some (fst (get_agent_response model cap msgs))"
    by blast
  have a: "result_at h1 r1 = map_sum id Some (fst (get_agent_response model cap msgs))"
    using res1 [rule_format, of "[]"] by simp
  have b: "result_at h2 r1 = map_sum id Some (fst (get_agent_response model cap msgs))"
    using res1 [rule_format, of ex2] h2 by simp
  have c: "result_at h2 r2 = map_sum id Some (fst (get_agent_response model cap msgs))"
    using res2 [rule_format, of "[]"] by simp
  have sent: "snd (get_agent_response model cap msgs) =
      (case current_messages msgs of Inl e \<Rightarrow> [] | Inr cur \<Rightarrow> [(model, cur)])"
    by (simp add: get_agent_response_def split: sum.splits)
  have other: "heap_get_agent_response model cap' a h = ((r1, reqs1), h1)"
    if "\<forall>cur. current_messages msgs = Inr cur \<longrightarrow> cap' model cur = cap model cur" for cap'
    using heap_get_agent_response_capability
      [where cap' = cap' and cap = cap and model = model, OF assms(1) that] assms(2)
    by simp
  show ?thesis
    using reqs1 reqs2 a b c sent other by simp
qed

theorem C10_witness:
  "conversation_at empty_list_heap 0 = Some [] \<and>
   result_at
     (empty_list_heap @
        [DictObj system_message, ListObj [1], ListObj [1],
         DictObj (assistant_message (str ''Hello there'')), ListObj [4], ListObj [1, 4],
         DictObj system_message, ListObj [7], ListObj [7],
         DictObj (assistant_message (str ''Hello there'')), ListObj [10], ListObj [7, 10]])
     (Inr 12) =
   result_at
     (empty_list_heap @
        [DictObj system_message, ListObj [1], ListObj [1],
         DictObj (assistant_message (str ''Hello there'')), ListObj [4], ListObj [1, 4]])
     (Inr 6) \<and>
   result_at
     (empty_list_heap @
        [DictObj system_message, ListObj [1], ListObj [1],
         DictObj (assistant_message (str ''Hello there'')), ListObj [4], ListObj [1, 4]])
     (Inr 6) =
   Inr (Some [system_message, assistant_message (str ''Hello there'')]) \<and>
   heap_get_agent_response (str ''gpt-4o-mini'') fussy_capability 0 empty_list_heap =
   heap_get_agent_response (str ''gpt-4o-mini'') hello_capability 0 empty_list_heap \<and>
   hello_capability (str ''gpt-4o-mini'') [] \<noteq> fussy_capability (str ''gpt-4o-mini'') []"
proof -
  let ?h1 = "empty_list_heap @
        [DictObj system_message, ListObj [1], ListObj [1],
         DictObj (assistant_message (str ''Hello there'')), ListObj [4], ListObj [1, 4]]"
  have again: "conversation_at ?h1 0 = Some []"
    using empty_list_heap_conversation by (rule conversation_at_append)
  note two = C10_deterministic [OF empty_list_heap_conversation
      empty_list_heap_run [of "str ''gpt-4o-mini''"] again
      empty_list_heap_second_run [of "str ''gpt-4o-mini''"]]
  have same: "result_at
     (empty_list_heap @
        [DictObj system_message, ListObj [1], ListObj [1],
         DictObj (assistant_message (str ''Hello there'')), ListObj [4], ListObj [1, 4],
         DictObj system_message, ListObj [7], ListObj [7],
         DictObj (assistant_message (str ''Hello there'')), ListObj [10], ListObj [7, 10]])
     (Inr 12) = result_at ?h1 (Inr 6)"
    using two by (elim conjE)
  have val: "result_at ?h1 (Inr 6) =
      map_sum id Some (fst (get_agent_response (str ''gpt-4o-mini'') hello_capability []))"
    using two by (elim conjE)
  have other: "\<forall>cap'. (\<forall>cur. current_messages [] = Inr cur \<longrightarrow>
        cap' (str ''gpt-4o-mini'') cur = hello_capability (str ''gpt-4o-mini'') cur) \<longrightarrow>
      heap_get_agent_response (str ''gpt-4o-mini'') cap' 0 empty_list_heap =
        ((Inr 6, [(str ''gpt-4o-mini'', [system_message])]), ?h1)"
    using two by (elim conjE)
  have agree: "\<forall>cur. current_messages [] = Inr cur \<longrightarrow>
      fussy_capability (str ''gpt-4o-mini'') cur = hello_capability (str ''gpt-4o-mini'') cur"
    by (simp add: hello_capability_def fussy_capability_def)
  have "heap_get_agent_response (str ''gpt-4o-mini'') fussy_capability 0 empty_list_heap =
        ((Inr 6, [(str ''gpt-4o-mini'', [system_message])]), ?h1)"
    using other agree by blast
  then have fussy: "heap_get_agent_response (str ''gpt-4o-mini'') fussy_capability 0 empty_list_heap =
      heap_get_agent_response (str ''gpt-4o-mini'') hello_capability 0 empty_list_heap"
    using empty_list_heap_run [of "str ''gpt-4o-mini''"] by simp
  have differ: "hello_capability (str ''gpt-4o-mini'') [] \<noteq> fussy_capability (str ''gpt-4o-mini'') []"
    by (simp add: hello_capability_def fussy_capability_def)
  have val': "result_at ?h1 (Inr 6) =
      Inr (Some [system_message, assistant_message (str ''Hello there'')])"
    using val by (simp add: run_empty)
  show ?thesis
    using empty_list_heap_conversation same val' fussy differ by (intro conjI)
qed

end
